theory Spec2Isabelle
  imports Main "HOL-Library.Word"
begin

section \<open>The nRF52840 receiver: radio payloads to USB HID keyboard reports\<close>

text \<open>
  A shallow embedding of \<^verbatim>\<open>src/main.c\<close>: the USB status callback
  \<^verbatim>\<open>usb_status_cb\<close> and the radio event handler
  \<^verbatim>\<open>receiver_esb_event_handler\<close>. The file-scope variables of the C file
  are the fields of one state record; what the handlers do to the outside world (log
  lines, reports written to the HID interrupt endpoint) is appended to two lists of that
  record, in program order.
\<close>

subsection \<open>Data\<close>

type_synonym byte = "8 word"

text \<open>
  Modelled from the spec: the size of the \<^verbatim>\<open>data\<close> array of
  \<^verbatim>\<open>struct esb_payload\<close> (the SDK's CONFIG_ESB_MAX_PAYLOAD_LENGTH, declared in
  \<^verbatim>\<open>esb.h\<close>, which is not part of the repository). The spec bounds a payload by
  32 bytes.
\<close>

definition ESB_MAX_PAYLOAD_LENGTH :: nat where
  "ESB_MAX_PAYLOAD_LENGTH = 32"

text \<open>
  \<^verbatim>\<open>struct esb_payload\<close>, restricted to the two fields the handler reads:
  \<^verbatim>\<open>uint8_t length\<close> and the fixed array \<^verbatim>\<open>uint8_t data[...]\<close>.
\<close>

record esb_payload =
  length_esb :: byte
  data :: "byte list"

text \<open>The C array has a fixed size whatever \<^verbatim>\<open>length\<close> says.\<close>

definition wf_payload :: "esb_payload \<Rightarrow> bool" where
  "wf_payload p = (length (data p) = ESB_MAX_PAYLOAD_LENGTH)"

datatype esb_evt_id = ESB_EVENT_TX_SUCCESS | ESB_EVENT_TX_FAILED | ESB_EVENT_RX_RECEIVED

record esb_evt =
  evt_id :: esb_evt_id
  tx_attempts :: "32 word"

text \<open>
  \<^verbatim>\<open>enum usb_dc_status_code\<close>: the five codes the callback names, and every other
  code (they all reach \<^verbatim>\<open>default\<close>), carrying its number.
\<close>

datatype usb_dc_status_code =
    USB_DC_CONFIGURED
  | USB_DC_DISCONNECTED
  | USB_DC_RESET
  | USB_DC_SUSPEND
  | USB_DC_RESUME
  | USB_DC_OTHER int

text \<open>\<^verbatim>\<open>const struct device *\<close>: a handle, or NULL (\<open>None\<close>).\<close>

type_synonym device = nat

subsection \<open>Logging\<close>

datatype log_level = LOG_LEVEL_ERR | LOG_LEVEL_WRN | LOG_LEVEL_INF | LOG_LEVEL_DBG

fun level_num :: "log_level \<Rightarrow> nat" where
  "level_num LOG_LEVEL_ERR = 1"
| "level_num LOG_LEVEL_WRN = 2"
| "level_num LOG_LEVEL_INF = 3"
| "level_num LOG_LEVEL_DBG = 4"

text \<open>A log line: its level, its format string and the \<^verbatim>\<open>%d\<close> arguments; or a hex dump.\<close>

datatype log_entry =
    Log_msg log_level string "int list"
  | Log_hexdump log_level "byte list" string

subsection \<open>State\<close>

text \<open>
  The statics of the file: \<^verbatim>\<open>rx_payload\<close>, \<^verbatim>\<open>hid_dev\<close>,
  \<^verbatim>\<open>configured\<close> and the count of \<^verbatim>\<open>usb_configured_sem\<close>; then the two
  outputs. (\<^verbatim>\<open>hid_keyboard_state\<close> is never read or written and is left out.)
\<close>

record state =
  rx_payload :: esb_payload
  hid_dev :: "device option"
  configured :: bool
  usb_configured_sem :: nat
  log_out :: "log_entry list"
  usb_out :: "byte list list"

text \<open>
  The initial values: statics are zeroed, \<^verbatim>\<open>configured = true\<close>,
  \<^verbatim>\<open>K_SEM_DEFINE(usb_configured_sem, 0, 1)\<close>.
\<close>

definition init_state :: state where
  "init_state =
     \<lparr> rx_payload = \<lparr> length_esb = 0, data = replicate ESB_MAX_PAYLOAD_LENGTH 0 \<rparr>,
       hid_dev = None,
       configured = True,
       usb_configured_sem = 0,
       log_out = [],
       usb_out = [] \<rparr>"

subsection \<open>The operating-system calls\<close>

text \<open>\<^verbatim>\<open>LOG_MODULE_REGISTER(RECEIVER, LOG_LEVEL_INF)\<close>: lines above this level are dropped.\<close>

definition LOG_MODULE_LEVEL :: log_level where
  "LOG_MODULE_LEVEL = LOG_LEVEL_INF"

definition LOG :: "log_level \<Rightarrow> string \<Rightarrow> int list \<Rightarrow> state \<Rightarrow> state" where
  "LOG lvl fmt args s =
     (if level_num lvl \<le> level_num LOG_MODULE_LEVEL
      then s\<lparr>log_out := log_out s @ [Log_msg lvl fmt args]\<rparr>
      else s)"

definition LOG_ERR :: "string \<Rightarrow> int list \<Rightarrow> state \<Rightarrow> state" where
  "LOG_ERR = LOG LOG_LEVEL_ERR"

definition LOG_WRN :: "string \<Rightarrow> int list \<Rightarrow> state \<Rightarrow> state" where
  "LOG_WRN = LOG LOG_LEVEL_WRN"

definition LOG_INF :: "string \<Rightarrow> int list \<Rightarrow> state \<Rightarrow> state" where
  "LOG_INF = LOG LOG_LEVEL_INF"

text \<open>
  The two \<^verbatim>\<open>LOG_DBG\<close> lines of the callback print the status code; at the module's
  level they print nothing, and the model keeps only their format string.
\<close>

definition LOG_DBG :: "string \<Rightarrow> state \<Rightarrow> state" where
  "LOG_DBG fmt = LOG LOG_LEVEL_DBG fmt []"

definition LOG_HEXDUMP_INF :: "byte list \<Rightarrow> nat \<Rightarrow> string \<Rightarrow> state \<Rightarrow> state" where
  "LOG_HEXDUMP_INF buf len label s =
     (if level_num LOG_LEVEL_INF \<le> level_num LOG_MODULE_LEVEL
      then s\<lparr>log_out := log_out s @ [Log_hexdump LOG_LEVEL_INF (take len buf) label]\<rparr>
      else s)"

text \<open>\<^verbatim>\<open>k_sem_give\<close> on a semaphore of limit 1: the count goes up unless it is at the limit.\<close>

definition k_sem_give :: "state \<Rightarrow> state" where
  "k_sem_give s = s\<lparr>usb_configured_sem := min (usb_configured_sem s + 1) 1\<rparr>"

text \<open>\<^verbatim>\<open>memcpy(dst, src, n)\<close> on arrays that hold at least \<open>n\<close> bytes each.\<close>

definition memcpy :: "byte list \<Rightarrow> byte list \<Rightarrow> nat \<Rightarrow> byte list" where
  "memcpy dst src n = take n src @ drop n dst"

text \<open>
  \<^verbatim>\<open>hid_int_ep_write(dev, data, len, NULL)\<close>: the first \<open>len\<close> bytes of the buffer
  go out as one report. The handler ignores the call's result.
\<close>

definition hid_int_ep_write :: "device option \<Rightarrow> byte list \<Rightarrow> nat \<Rightarrow> state \<Rightarrow> state" where
  "hid_int_ep_write dev buf len s = s\<lparr>usb_out := usb_out s @ [take len buf]\<rparr>"

subsection \<open>The USB status callback\<close>

fun usb_status_cb :: "usb_dc_status_code \<Rightarrow> state \<Rightarrow> state" where
  "usb_status_cb USB_DC_CONFIGURED s =
     k_sem_give
       ((LOG_INF ''USB_DC_CONFIGURED received, setting configured = true'' []
          (LOG_DBG ''USB status callback: status=%d'' s))\<lparr>configured := True\<rparr>)"
| "usb_status_cb USB_DC_DISCONNECTED s =
     (LOG_INF ''USB_DC_DISCONNECTED received, setting configured = false'' []
        (LOG_DBG ''USB status callback: status=%d'' s))\<lparr>configured := False\<rparr>"
| "usb_status_cb USB_DC_RESET s =
     (LOG_INF ''USB_DC_RESET received, setting configured = false'' []
        (LOG_DBG ''USB status callback: status=%d'' s))\<lparr>configured := False\<rparr>"
| "usb_status_cb USB_DC_SUSPEND s =
     LOG_INF ''USB_DC_SUSPEND received'' [] (LOG_DBG ''USB status callback: status=%d'' s)"
| "usb_status_cb USB_DC_RESUME s =
     LOG_INF ''USB_DC_RESUME received'' [] (LOG_DBG ''USB status callback: status=%d'' s)"
| "usb_status_cb (USB_DC_OTHER n) s =
     LOG_DBG ''Unknown USB status code: %d'' (LOG_DBG ''USB status callback: status=%d'' s)"

subsection \<open>The radio event handler\<close>

text \<open>
  The braces of the \<^verbatim>\<open>ESB_EVENT_RX_RECEIVED\<close> case do not follow its indentation:
  the block opened by \<^verbatim>\<open>if (hid_dev && configured) {\<close> is closed only by the
  \<^verbatim>\<open>}\<close> of \<^verbatim>\<open>} else if (rx_payload.length == 2) {\<close>. As C reads it:
  \<^verbatim>\<open>
  case ESB_EVENT_RX_RECEIVED:
    if (esb_read_rx_payload(&rx_payload) == 0) {
      LOG_INF(... length ...); LOG_INF(... D+, D- ...); LOG_HEXDUMP_INF(... "Raw Payload");
      if (rx_payload.length == 8) {
        LOG_INF("Processing HID report (8 bytes)");
        if (hid_dev && configured) {
          ... memcpy ...; hid_int_ep_write(hid_report); hid_int_ep_write(release_report);
        } else if (rx_payload.length == 2) {
          LOG_INF("Received test payload (2 bytes): ...");
        } else {
          LOG_WRN("Unexpected payload length: %d", ...); LOG_HEXDUMP_INF(... "Unexpected Payload");
        }
      } else {
        LOG_ERR("Failed to read RX payload");
      }
      break;
    }
  \<close>
  so the three \<^verbatim>\<open>else\<close> branches belong to the inner conditions, and a failed read
  leaves the \<^verbatim>\<open>switch\<close> without a log line.

  The driver call \<^verbatim>\<open>esb_read_rx_payload(&rx_payload)\<close> is a parameter: from the
  buffer it is given, it returns its result code and the buffer's new contents.
\<close>

definition receiver_esb_event_handler ::
    "(esb_payload \<Rightarrow> int \<times> esb_payload) \<Rightarrow> esb_evt \<Rightarrow> state \<Rightarrow> state" where
  "receiver_esb_event_handler esb_read_rx_payload event s =
     (case evt_id event of
        ESB_EVENT_TX_SUCCESS \<Rightarrow> LOG_INF ''TX success (unexpected in PRX mode)'' [] s
      | ESB_EVENT_TX_FAILED \<Rightarrow> LOG_ERR ''TX failed (unexpected in PRX mode)'' [] s
      | ESB_EVENT_RX_RECEIVED \<Rightarrow>
          (let rd = esb_read_rx_payload (rx_payload s);
               s1 = s\<lparr>rx_payload := snd rd\<rparr>
           in if fst rd = 0 then
                (let s2 = LOG_INF ''Received Payload (length: %d bytes)''
                            [uint (length_esb (rx_payload s1))] s1;
                     s3 = LOG_INF ''Data: D+ = %d, D- = %d''
                            [uint (data (rx_payload s2) ! 0), uint (data (rx_payload s2) ! 1)] s2;
                     s4 = LOG_HEXDUMP_INF (data (rx_payload s3))
                            (unat (length_esb (rx_payload s3))) ''Raw Payload'' s3
                 in if length_esb (rx_payload s4) = 8 then
                      (let s5 = LOG_INF ''Processing HID report (8 bytes)'' [] s4
                       in if hid_dev s5 \<noteq> None \<and> configured s5 then
                            (let hid_report = memcpy (replicate 8 0) (data (rx_payload s5)) 8;
                                 release_report = replicate 8 0;
                                 s6 = hid_int_ep_write (hid_dev s5) hid_report 8 s5
                             in hid_int_ep_write (hid_dev s6) release_report 8 s6)
                          else if length_esb (rx_payload s5) = 2 then
                            LOG_INF ''Received test payload (2 bytes): D+ = %d, D- = %d''
                              [uint (data (rx_payload s5) ! 0), uint (data (rx_payload s5) ! 1)] s5
                          else
                            LOG_HEXDUMP_INF (data (rx_payload s5))
                              (unat (length_esb (rx_payload s5))) ''Unexpected Payload''
                              (LOG_WRN ''Unexpected payload length: %d''
                                 [uint (length_esb (rx_payload s5))] s5))
                    else LOG_ERR ''Failed to read RX payload'' [] s4)
              else s1))"

subsection \<open>Concrete inputs\<close>

text \<open>A driver that delivers the payload \<open>p\<close>, and one that fails with the code \<open>rc\<close>.\<close>

definition read_ok :: "esb_payload \<Rightarrow> esb_payload \<Rightarrow> int \<times> esb_payload" where
  "read_ok p buf = (0, p)"

definition read_error :: "int \<Rightarrow> esb_payload \<Rightarrow> int \<times> esb_payload" where
  "read_error rc buf = (rc, buf)"

text \<open>A payload of \<open>n\<close> valid bytes \<open>bs\<close> in the zero-padded array.\<close>

definition mk_payload :: "byte list \<Rightarrow> esb_payload" where
  "mk_payload bs =
     \<lparr> length_esb = of_nat (length bs),
       data = bs @ replicate (ESB_MAX_PAYLOAD_LENGTH - length bs) 0 \<rparr>"

definition rx_event :: esb_evt where
  "rx_event = \<lparr> evt_id = ESB_EVENT_RX_RECEIVED, tx_attempts = 0 \<rparr>"

text \<open>
  A buffer whose declared length is 0 while its array still holds the bytes 7 and 9
  from an earlier packet.
\<close>

definition stale_payload :: esb_payload where
  "stale_payload = \<lparr> length_esb = 0, data = [7, 9] @ replicate 30 0 \<rparr>"

text \<open>The state once \<^verbatim>\<open>main\<close> has bound the HID device.\<close>

definition ready_state :: state where
  "ready_state = init_state\<lparr>hid_dev := Some 0\<rparr>"

section \<open>Properties\<close>

subsection \<open>Unfolding the model\<close>

lemmas os_defs = LOG_def LOG_ERR_def LOG_WRN_def LOG_INF_def LOG_DBG_def LOG_HEXDUMP_INF_def
  LOG_MODULE_LEVEL_def k_sem_give_def hid_int_ep_write_def memcpy_def

lemmas input_defs = read_ok_def read_error_def mk_payload_def rx_event_def ready_state_def
  init_state_def stale_payload_def ESB_MAX_PAYLOAD_LENGTH_def

lemma replicate_8: "replicate 8 x = [x, x, x, x, x, x, x, x]"
  by (simp add: numeral_eq_Suc)

lemma rx_event_id: "evt_id rx_event = ESB_EVENT_RX_RECEIVED"
  by (simp add: rx_event_def)

lemma read_ok_result: "read_ok p (rx_payload s) = (0, p)"
  by (simp add: read_ok_def)

lemma ready_state_outputs: "usb_out ready_state = []" "log_out ready_state = []"
  by (simp_all add: ready_state_def init_state_def)

subsection \<open>Forwarding\<close>

text \<open>
  Claim C1. When the driver delivers a payload of length 8 while \<^verbatim>\<open>configured\<close> is
  true and \<^verbatim>\<open>hid_dev\<close> is not NULL, the handler writes exactly two reports after
  whatever was written before: the first 8 bytes of the payload, unchanged, then 8 zero
  bytes. Both are 8 bytes long.
\<close>

theorem forward_emits_report_then_release:
  assumes "evt_id event = ESB_EVENT_RX_RECEIVED"
    and "esb_read_rx_payload (rx_payload s) = (0, p)"
    and "wf_payload p"
    and "length_esb p = 8"
    and "configured s"
    and "hid_dev s \<noteq> None"
  shows "usb_out (receiver_esb_event_handler esb_read_rx_payload event s)
           = usb_out s @ [take 8 (data p), replicate 8 0]
         \<and> length (take 8 (data p)) = 8
         \<and> length (replicate 8 (0::byte)) = 8"
  using assms
  by (simp add: receiver_esb_event_handler_def os_defs wf_payload_def
        ESB_MAX_PAYLOAD_LENGTH_def Let_def)

theorem forward_emits_report_then_release_witness:
  "evt_id rx_event = ESB_EVENT_RX_RECEIVED
   \<and> read_ok (mk_payload [0, 0, 4, 0, 0, 0, 0, 0]) (rx_payload ready_state)
       = (0, mk_payload [0, 0, 4, 0, 0, 0, 0, 0])
   \<and> wf_payload (mk_payload [0, 0, 4, 0, 0, 0, 0, 0])
   \<and> length_esb (mk_payload [0, 0, 4, 0, 0, 0, 0, 0]) = 8
   \<and> configured ready_state
   \<and> hid_dev ready_state \<noteq> None
   \<and> usb_out (receiver_esb_event_handler (read_ok (mk_payload [0, 0, 4, 0, 0, 0, 0, 0]))
        rx_event ready_state)
       = [[0, 0, 4, 0, 0, 0, 0, 0], [0, 0, 0, 0, 0, 0, 0, 0]]"
proof -
  let ?p = "mk_payload [0, 0, 4, 0, 0, 0, 0, 0]"
  have h2: "read_ok ?p (rx_payload ready_state) = (0, ?p)"
    by (rule read_ok_result)
  have h3: "wf_payload ?p"
    by (simp add: wf_payload_def mk_payload_def ESB_MAX_PAYLOAD_LENGTH_def)
  have h4: "length_esb ?p = 8"
    by (simp add: mk_payload_def)
  have h5: "configured ready_state" and h6: "hid_dev ready_state \<noteq> None"
    by (simp_all add: ready_state_def init_state_def)
  have t: "take 8 (data ?p) = [0, 0, 4, 0, 0, 0, 0, 0]"
    by (simp add: mk_payload_def)
  from forward_emits_report_then_release
         [where esb_read_rx_payload = "read_ok ?p" and event = rx_event and s = ready_state
            and p = ?p, OF rx_event_id h2 h3 h4 h5 h6]
       rx_event_id h2 h3 h4 h5 h6 t ready_state_outputs
  show ?thesis by (simp add: replicate_8)
qed

subsection \<open>A failed read\<close>

text \<open>
  When the driver's result is not 0 the handler leaves the \<^verbatim>\<open>switch\<close> at once:
  the \<^verbatim>\<open>else\<close> that holds \<^verbatim>\<open>LOG_ERR("Failed to read RX payload")\<close> belongs
  to the test of the length, so nothing is logged and nothing is written.
\<close>

lemma read_failure_is_silent:
  assumes "evt_id event = ESB_EVENT_RX_RECEIVED"
    and "fst (esb_read_rx_payload (rx_payload s)) \<noteq> 0"
  shows "log_out (receiver_esb_event_handler esb_read_rx_payload event s) = log_out s"
    and "usb_out (receiver_esb_event_handler esb_read_rx_payload event s) = usb_out s"
  using assms by (simp_all add: receiver_esb_event_handler_def Let_def)

text \<open>
  Claim C2 says that a receive event whose read fails logs exactly one error and emits no
  report. On the code, with a driver that fails with -61 (no data) in the state after
  start-up, no report is emitted, but the log stays empty: no error is logged.
\<close>

theorem read_error_logs_nothing:
  "log_out (receiver_esb_event_handler (read_error (- 61)) rx_event ready_state) = []
   \<and> usb_out (receiver_esb_event_handler (read_error (- 61)) rx_event ready_state) = []"
  by (simp add: receiver_esb_event_handler_def input_defs Let_def)

subsection \<open>Payloads that are not forwarded\<close>

text \<open>
  The line \<^verbatim>\<open>"Received test payload (2 bytes): ..."\<close> sits under
  \<^verbatim>\<open>rx_payload.length == 8\<close>, where the length cannot be 2: no event ever logs it.
\<close>

lemma test_payload_line_is_dead:
  assumes "Log_msg LOG_LEVEL_INF ''Received test payload (2 bytes): D+ = %d, D- = %d'' args
             \<notin> set (log_out s)"
  shows "Log_msg LOG_LEVEL_INF ''Received test payload (2 bytes): D+ = %d, D- = %d'' args
           \<notin> set (log_out (receiver_esb_event_handler esb_read_rx_payload event s))"
  using assms
  by (cases "evt_id event") (simp_all add: receiver_esb_event_handler_def os_defs Let_def)

text \<open>
  Claim C3 says that a payload of length 2 emits no report and is logged as a test packet.
  On the code, for the payload of the two bytes 1, 1: no report is emitted and the generic
  lines show the bytes, but the packet is then logged as the error
  \<^verbatim>\<open>"Failed to read RX payload"\<close>, and the test-packet line is absent.
\<close>

theorem test_payload_logged_as_read_failure:
  "log_out (receiver_esb_event_handler (read_ok (mk_payload [1, 1])) rx_event ready_state)
     = [Log_msg LOG_LEVEL_INF ''Received Payload (length: %d bytes)'' [2],
        Log_msg LOG_LEVEL_INF ''Data: D+ = %d, D- = %d'' [1, 1],
        Log_hexdump LOG_LEVEL_INF [1, 1] ''Raw Payload'',
        Log_msg LOG_LEVEL_ERR ''Failed to read RX payload'' []]
   \<and> usb_out (receiver_esb_event_handler (read_ok (mk_payload [1, 1])) rx_event ready_state) = []"
  by (simp add: receiver_esb_event_handler_def input_defs os_defs Let_def)

text \<open>
  Claim C4. A payload that was read and whose length is neither 2 nor 8, or whose length
  is 8 while \<^verbatim>\<open>configured\<close> is false, emits no report: the USB output is what it
  was, and the payload's bytes are in the log (the \<^verbatim>\<open>"Raw Payload"\<close> dump).
\<close>

theorem unexpected_payload_emits_nothing:
  assumes "evt_id event = ESB_EVENT_RX_RECEIVED"
    and "esb_read_rx_payload (rx_payload s) = (0, p)"
    and "length_esb p \<notin> {2, 8} \<or> (length_esb p = 8 \<and> \<not> configured s)"
  shows "usb_out (receiver_esb_event_handler esb_read_rx_payload event s) = usb_out s
         \<and> Log_hexdump LOG_LEVEL_INF (take (unat (length_esb p)) (data p)) ''Raw Payload''
             \<in> set (log_out (receiver_esb_event_handler esb_read_rx_payload event s))"
  using assms
  by (auto simp add: receiver_esb_event_handler_def os_defs Let_def)

theorem unexpected_payload_emits_nothing_witness:
  "length_esb (mk_payload [1, 2, 3]) = 3
   \<and> usb_out (receiver_esb_event_handler (read_ok (mk_payload [1, 2, 3])) rx_event ready_state)
       = []
   \<and> length_esb (mk_payload [0, 0, 4, 0, 0, 0, 0, 0]) = 8
   \<and> \<not> configured (ready_state\<lparr>configured := False\<rparr>)
   \<and> usb_out (receiver_esb_event_handler (read_ok (mk_payload [0, 0, 4, 0, 0, 0, 0, 0]))
        rx_event (ready_state\<lparr>configured := False\<rparr>)) = []"
proof -
  let ?p = "mk_payload [1, 2, 3]"
  let ?q = "mk_payload [0, 0, 4, 0, 0, 0, 0, 0]"
  let ?t = "ready_state\<lparr>configured := False\<rparr>"
  have rp: "read_ok ?p (rx_payload ready_state) = (0, ?p)"
    and rq: "read_ok ?q (rx_payload ?t) = (0, ?q)"
    by (rule read_ok_result)+
  have np: "length_esb ?p = 3" and nq: "length_esb ?q = 8"
    by (simp_all add: mk_payload_def)
  have lp: "length_esb ?p \<notin> {2, 8} \<or> (length_esb ?p = 8 \<and> \<not> configured ready_state)"
    by (simp add: np)
  have lq: "length_esb ?q \<notin> {2, 8} \<or> (length_esb ?q = 8 \<and> \<not> configured ?t)"
    by (simp add: nq)
  have e: "usb_out ?t = []"
    by (simp add: ready_state_outputs)
  from unexpected_payload_emits_nothing
         [where esb_read_rx_payload = "read_ok ?p" and event = rx_event and s = ready_state
            and p = ?p, OF rx_event_id rp lp]
       unexpected_payload_emits_nothing
         [where esb_read_rx_payload = "read_ok ?q" and event = rx_event and s = ?t
            and p = ?q, OF rx_event_id rq lq]
       np nq e ready_state_outputs
  show ?thesis by simp
qed

text \<open>
  Claim C9. The guard is \<^verbatim>\<open>hid_dev && configured\<close>: a payload of length 8 that
  arrives while \<^verbatim>\<open>configured\<close> is true and \<^verbatim>\<open>hid_dev\<close> is NULL emits no
  report.
\<close>

theorem null_hid_dev_emits_nothing:
  assumes "evt_id event = ESB_EVENT_RX_RECEIVED"
    and "esb_read_rx_payload (rx_payload s) = (0, p)"
    and "length_esb p = 8"
    and "configured s"
    and "hid_dev s = None"
  shows "usb_out (receiver_esb_event_handler esb_read_rx_payload event s) = usb_out s"
  using assms
  by (simp add: receiver_esb_event_handler_def os_defs Let_def)

theorem null_hid_dev_emits_nothing_witness:
  "evt_id rx_event = ESB_EVENT_RX_RECEIVED
   \<and> length_esb (mk_payload [0, 0, 4, 0, 0, 0, 0, 0]) = 8
   \<and> configured init_state
   \<and> hid_dev init_state = None
   \<and> usb_out (receiver_esb_event_handler (read_ok (mk_payload [0, 0, 4, 0, 0, 0, 0, 0]))
        rx_event init_state) = []"
proof -
  let ?p = "mk_payload [0, 0, 4, 0, 0, 0, 0, 0]"
  have h2: "read_ok ?p (rx_payload init_state) = (0, ?p)"
    by (rule read_ok_result)
  have h3: "length_esb ?p = 8"
    by (simp add: mk_payload_def)
  have h4: "configured init_state" and h5: "hid_dev init_state = None"
    and e: "usb_out init_state = []"
    by (simp_all add: init_state_def)
  from null_hid_dev_emits_nothing
         [where esb_read_rx_payload = "read_ok ?p" and event = rx_event and s = init_state
            and p = ?p, OF rx_event_id h2 h3 h4 h5]
       rx_event_id h3 h4 h5 e
  show ?thesis by simp
qed

subsection \<open>The shape of the reports\<close>

text \<open>
  Claim C5 as stated (every emitted report has byte 1 equal to zero) fails: the handler
  copies the payload without looking at it, so the payload 0, 5, 4, 0, 0, 0, 0, 0 goes out
  with 5 in the reserved byte.
\<close>

theorem reserved_byte_not_zero_counterexample:
  "usb_out (receiver_esb_event_handler (read_ok (mk_payload [0, 5, 4, 0, 0, 0, 0, 0]))
      rx_event ready_state) ! 0 ! 1 = 5
   \<and> (5::byte) \<noteq> 0"
  by (simp add: receiver_esb_event_handler_def input_defs os_defs Let_def)

text \<open>
  Claim C5, amended. Whatever the event, the handler writes either nothing or the live
  report followed by the release report. Each of the two is exactly 8 bytes long; byte 1 of
  the release report is zero; byte 1 of the live report is byte 1 of the payload, copied
  as it came.
\<close>

theorem emitted_reports_shape:
  assumes "wf_payload (snd (esb_read_rx_payload (rx_payload s)))"
  shows "(usb_out (receiver_esb_event_handler esb_read_rx_payload event s) = usb_out s
          \<or> usb_out (receiver_esb_event_handler esb_read_rx_payload event s)
              = usb_out s @ [take 8 (data (snd (esb_read_rx_payload (rx_payload s)))),
                             replicate 8 0])
         \<and> length (take 8 (data (snd (esb_read_rx_payload (rx_payload s))))) = 8
         \<and> take 8 (data (snd (esb_read_rx_payload (rx_payload s)))) ! 1
             = data (snd (esb_read_rx_payload (rx_payload s))) ! 1
         \<and> length (replicate 8 (0::byte)) = 8
         \<and> replicate 8 (0::byte) ! 1 = 0"
  using assms
  by (cases "evt_id event")
     (simp_all add: receiver_esb_event_handler_def os_defs Let_def wf_payload_def
        ESB_MAX_PAYLOAD_LENGTH_def)

theorem emitted_reports_shape_witness:
  "wf_payload (snd (read_ok (mk_payload [2, 0, 4, 5, 0, 0, 0, 0]) (rx_payload ready_state)))
   \<and> usb_out (receiver_esb_event_handler (read_ok (mk_payload [2, 0, 4, 5, 0, 0, 0, 0]))
        rx_event ready_state) = [[2, 0, 4, 5, 0, 0, 0, 0], [0, 0, 0, 0, 0, 0, 0, 0]]"
proof -
  let ?p = "mk_payload [2, 0, 4, 5, 0, 0, 0, 0]"
  have wf: "wf_payload (snd (read_ok ?p (rx_payload ready_state)))"
    by (simp add: read_ok_def wf_payload_def mk_payload_def ESB_MAX_PAYLOAD_LENGTH_def)
  have t: "take 8 (data (snd (read_ok ?p (rx_payload ready_state)))) = [2, 0, 4, 5, 0, 0, 0, 0]"
    by (simp add: read_ok_def mk_payload_def)
  have ne: "usb_out (receiver_esb_event_handler (read_ok ?p) rx_event ready_state) \<noteq> []"
    by (simp add: receiver_esb_event_handler_def input_defs os_defs Let_def)
  from emitted_reports_shape
         [where esb_read_rx_payload = "read_ok ?p" and event = rx_event and s = ready_state,
            OF wf]
       wf t ne ready_state_outputs
  show ?thesis by (simp add: replicate_8)
qed

subsection \<open>The readiness flag\<close>

text \<open>
  Claim C6. After \<^verbatim>\<open>USB_DC_CONFIGURED\<close> the flag \<^verbatim>\<open>configured\<close> is true;
  after \<^verbatim>\<open>USB_DC_DISCONNECTED\<close> and after \<^verbatim>\<open>USB_DC_RESET\<close> it is false;
  \<^verbatim>\<open>USB_DC_SUSPEND\<close>, \<^verbatim>\<open>USB_DC_RESUME\<close> and every other status code leave
  it as it was.
\<close>

theorem usb_status_cb_readiness:
  "configured (usb_status_cb USB_DC_CONFIGURED s)
   \<and> \<not> configured (usb_status_cb USB_DC_DISCONNECTED s)
   \<and> \<not> configured (usb_status_cb USB_DC_RESET s)
   \<and> configured (usb_status_cb USB_DC_SUSPEND s) = configured s
   \<and> configured (usb_status_cb USB_DC_RESUME s) = configured s
   \<and> configured (usb_status_cb (USB_DC_OTHER n) s) = configured s"
  by (simp add: os_defs)

text \<open>
  Claim C7. Whatever the flag was, after one or more \<^verbatim>\<open>USB_DC_CONFIGURED\<close> events
  in a row it is true: a repeated event does not toggle it back.
\<close>

theorem configured_event_idempotent:
  "0 < n \<Longrightarrow> configured ((usb_status_cb USB_DC_CONFIGURED ^^ n) s)"
  by (cases n) (simp_all add: os_defs)

theorem configured_event_idempotent_witness:
  "(0::nat) < 3
   \<and> \<not> configured (init_state\<lparr>configured := False\<rparr>)
   \<and> configured ((usb_status_cb USB_DC_CONFIGURED ^^ 3) (init_state\<lparr>configured := False\<rparr>))"
proof -
  have h: "(0::nat) < 3"
    by simp
  from configured_event_idempotent [of 3 "init_state\<lparr>configured := False\<rparr>", OF h] h
  show ?thesis by simp
qed

text \<open>
  Claim C8. The radio event handler never writes \<^verbatim>\<open>configured\<close>: for every event
  (transmit succeeded, transmit failed, payload received), every behaviour of the driver's
  read and every state, the flag after the handler is the flag before it.
\<close>

theorem handler_preserves_configured:
  "configured (receiver_esb_event_handler esb_read_rx_payload event s) = configured s"
  by (cases "evt_id event") (simp_all add: receiver_esb_event_handler_def os_defs Let_def)

subsection \<open>Reads of the buffer before the length is tested\<close>

text \<open>
  Claim C10. After every successful read, whatever the declared length (0 and 1 too), the
  first three lines the handler logs are the length, then \<^verbatim>\<open>data[0]\<close> and
  \<^verbatim>\<open>data[1]\<close> for the D+/D- line, then the dump of the valid bytes; the lines
  that depend on the length come after them. So bytes past the declared length are read.
\<close>

theorem data_bytes_logged_before_length_check:
  assumes "evt_id event = ESB_EVENT_RX_RECEIVED"
    and "esb_read_rx_payload (rx_payload s) = (0, p)"
  shows "take (length (log_out s) + 3)
           (log_out (receiver_esb_event_handler esb_read_rx_payload event s))
         = log_out s @
           [Log_msg LOG_LEVEL_INF ''Received Payload (length: %d bytes)'' [uint (length_esb p)],
            Log_msg LOG_LEVEL_INF ''Data: D+ = %d, D- = %d''
              [uint (data p ! 0), uint (data p ! 1)],
            Log_hexdump LOG_LEVEL_INF (take (unat (length_esb p)) (data p)) ''Raw Payload'']"
  using assms
  by (simp add: receiver_esb_event_handler_def os_defs Let_def)

theorem data_bytes_logged_before_length_check_witness:
  "evt_id rx_event = ESB_EVENT_RX_RECEIVED
   \<and> read_ok stale_payload (rx_payload ready_state) = (0, stale_payload)
   \<and> length_esb stale_payload = 0
   \<and> take 3 (log_out (receiver_esb_event_handler (read_ok stale_payload) rx_event ready_state))
       = [Log_msg LOG_LEVEL_INF ''Received Payload (length: %d bytes)'' [0],
          Log_msg LOG_LEVEL_INF ''Data: D+ = %d, D- = %d'' [7, 9],
          Log_hexdump LOG_LEVEL_INF [] ''Raw Payload'']"
proof -
  have h2: "read_ok stale_payload (rx_payload ready_state) = (0, stale_payload)"
    by (rule read_ok_result)
  have h3: "length_esb stale_payload = 0"
    and d: "data stale_payload ! 0 = 7" "data stale_payload ! 1 = 9"
    by (simp_all add: stale_payload_def)
  from data_bytes_logged_before_length_check
         [where esb_read_rx_payload = "read_ok stale_payload" and event = rx_event
            and s = ready_state and p = stale_payload, OF rx_event_id h2]
       rx_event_id h2 h3 d ready_state_outputs
  show ?thesis by simp
qed

end
